theory Spec2Isabelle
  imports Main
begin

section \<open>Common types\<close>

text \<open>
  A Go \<open>error\<close> value is modelled by its message; the \<open>nil\<close> error is \<open>None\<close>.
  A call returning \<open>(v, err)\<close> is a sum: \<open>Inl err\<close> when the error is not nil,
  \<open>Inr v\<close> otherwise.
\<close>

type_synonym error = string
type_synonym path = string
type_synonym bytes = string

section \<open>GetKeystorePassword (internal/pkg/handlers/backup.go)\<close>

text \<open>
  The function reads the process environment and may ask the user for a passphrase.
  Both are outside the program: \<open>Getenv\<close> is the environment as \<open>os.Getenv\<close> reads it
  (the empty string for a variable that is not set), \<open>PassphrasePromptForUnlock\<close> is
  what the interactive prompt of \<open>localcrypto\<close> would return if it were called.
\<close>

record keystore_world =
  Getenv :: "string \<Rightarrow> string"
  PassphrasePromptForUnlock :: "string \<times> error option"

text \<open>
  The result holds the two returned values and, as the trace of the one effect the
  function has, whether the prompt was shown.
\<close>

record password_result =
  password :: string
  password_err :: "error option"
  prompted :: bool

definition GetKeystorePassword :: "keystore_world \<Rightarrow> password_result" where
  "GetKeystorePassword w =
     (let pw = Getenv w ''RUM_KSPASSWD'' in
      if pw \<noteq> ''''
      then \<lparr>password = pw, password_err = None, prompted = False\<rparr>
      else \<lparr>password = fst (PassphrasePromptForUnlock w),
            password_err = snd (PassphrasePromptForUnlock w),
            prompted = True\<rparr>)"

section \<open>saveLocalSeedsToAppdata (cmd main, second part of backup.go)\<close>

text \<open>
  What the function calls is library code or another package of the repository: the file
  system
  (\<open>utils.DirExist\<close>, \<open>ioutil.ReadDir\<close>, \<open>ioutil.ReadFile\<close>, \<open>filepath.Join\<close>,
  \<open>filepath.Dir\<close>), \<open>json.Unmarshal\<close>, the seed types with
  \<open>handlers.ToPbGroupSeed\<close>, and the application database with \<open>GetGroupSeed\<close> and
  \<open>SetGroupSeed\<close>. They are parameters, collected in one record. The database is a value
  of an arbitrary type \<open>'db\<close>; a failing \<open>SetGroupSeed\<close> returns no new database.
\<close>

record FileInfo =
  IsDir :: bool
  Name :: string

record ('db, 'seed, 'pb) seed_deps =
  DirExist :: "path \<Rightarrow> bool"
  ReadDir :: "path \<Rightarrow> error + FileInfo list"
  ReadFile :: "path \<Rightarrow> error + bytes"
  Join :: "path \<Rightarrow> path \<Rightarrow> path"
  Dir :: "path \<Rightarrow> path"
  Unmarshal :: "bytes \<Rightarrow> error + 'seed"
  GroupId :: "'seed \<Rightarrow> string"
  ToPbGroupSeed :: "'seed \<Rightarrow> 'pb"
  GetGroupSeed :: "'db \<Rightarrow> string \<Rightarrow> error + 'pb option"
  SetGroupSeed :: "'db \<Rightarrow> 'pb \<Rightarrow> error + 'db"

datatype log_entry = Errorf string error | Debugf string string

record 'db seed_state =
  appdb :: 'db
  mainlog :: "log_entry list"

definition logError :: "string \<Rightarrow> error \<Rightarrow> 'db seed_state \<Rightarrow> 'db seed_state" where
  "logError fmt e s = s\<lparr>mainlog := mainlog s @ [Errorf fmt e]\<rparr>"

definition logDebug :: "string \<Rightarrow> string \<Rightarrow> 'db seed_state \<Rightarrow> 'db seed_state" where
  "logDebug fmt a s = s\<lparr>mainlog := mainlog s @ [Debugf fmt a]\<rparr>"

text \<open>One pass of the loop body; every \<open>continue\<close> is a branch that returns the state.\<close>

definition seedIter ::
  "('db, 'seed, 'pb) seed_deps \<Rightarrow> path \<Rightarrow> FileInfo \<Rightarrow> 'db seed_state \<Rightarrow> 'db seed_state" where
  "seedIter D seedPath seed s =
     (if IsDir seed then s
      else case ReadFile D (Join D seedPath (Name seed)) of
        Inl e \<Rightarrow> logError ''read seed file failed: %s'' e s
      | Inr seedByte \<Rightarrow>
          (case Unmarshal D seedByte of
            Inl e \<Rightarrow> logError ''unmarshal seed file failed: %s'' e s
          | Inr sd \<Rightarrow>
              (case GetGroupSeed D (appdb s) (GroupId D sd) of
                Inl e \<Rightarrow> logError ''get group seed from appdb failed: %s'' e s
              | Inr (Some savedSeed) \<Rightarrow>
                  logDebug ''group id: %s, seed already exist, skip ...'' (GroupId D sd) s
              | Inr None \<Rightarrow>
                  (case SetGroupSeed D (appdb s) (ToPbGroupSeed D sd) of
                    Inl e \<Rightarrow> logError ''save group seed failed: %s'' e s
                  | Inr db' \<Rightarrow> s\<lparr>appdb := db'\<rparr>))))"

fun seedLoop ::
  "('db, 'seed, 'pb) seed_deps \<Rightarrow> path \<Rightarrow> FileInfo list \<Rightarrow> 'db seed_state \<Rightarrow> 'db seed_state" where
  "seedLoop D seedPath [] s = s"
| "seedLoop D seedPath (seed # seeds) s = seedLoop D seedPath seeds (seedIter D seedPath seed s)"

text \<open>
  When \<open>ReadDir\<close> fails the error is logged and the function goes on with the slice
  \<open>ReadDir\<close> returned, which is nil: the loop runs over no file.
\<close>

definition saveLocalSeedsToAppdata ::
  "('db, 'seed, 'pb) seed_deps \<Rightarrow> path \<Rightarrow> 'db seed_state \<Rightarrow> 'db seed_state" where
  "saveLocalSeedsToAppdata D dataDir s =
     (let seedPath = Join D (Dir D dataDir) ''seeds'' in
      if DirExist D seedPath
      then (case ReadDir D seedPath of
              Inl e \<Rightarrow> seedLoop D seedPath [] (logError ''read seeds directory failed: %s'' e s)
            | Inr seeds \<Rightarrow> seedLoop D seedPath seeds s)
      else s)"

text \<open>
  A seed file fails when it is a regular file and reading it, decoding it, looking its
  group up or saving its seed returns an error.
\<close>

definition seedFails ::
  "('db, 'seed, 'pb) seed_deps \<Rightarrow> path \<Rightarrow> FileInfo \<Rightarrow> 'db \<Rightarrow> bool" where
  "seedFails D seedPath seed db =
     (\<not> IsDir seed \<and>
      (case ReadFile D (Join D seedPath (Name seed)) of
        Inl e \<Rightarrow> True
      | Inr seedByte \<Rightarrow>
          (case Unmarshal D seedByte of
            Inl e \<Rightarrow> True
          | Inr sd \<Rightarrow>
              (case GetGroupSeed D db (GroupId D sd) of
                Inl e \<Rightarrow> True
              | Inr (Some savedSeed) \<Rightarrow> False
              | Inr None \<Rightarrow>
                  (case SetGroupSeed D db (ToPbGroupSeed D sd) of
                    Inl e \<Rightarrow> True
                  | Inr db' \<Rightarrow> False)))))"

text \<open>
  A seed file is skipped when it is read and decoded and the lookup finds a stored seed
  for its group.
\<close>

definition seedSkipped ::
  "('db, 'seed, 'pb) seed_deps \<Rightarrow> path \<Rightarrow> FileInfo \<Rightarrow> 'db \<Rightarrow> bool" where
  "seedSkipped D seedPath seed db =
     (\<not> IsDir seed \<and>
      (case ReadFile D (Join D seedPath (Name seed)) of
        Inl e \<Rightarrow> False
      | Inr seedByte \<Rightarrow>
          (case Unmarshal D seedByte of
            Inl e \<Rightarrow> False
          | Inr sd \<Rightarrow>
              (case GetGroupSeed D db (GroupId D sd) of
                Inl e \<Rightarrow> False
              | Inr (Some savedSeed) \<Rightarrow> True
              | Inr None \<Rightarrow> False))))"

text \<open>
  The one property of the application database the first theorem on the seeds needs:
  saving the seed of one group changes the stored seed of no other group. It is what a
  store keyed by group id provides, with \<open>ToPbGroupSeed\<close> keeping the seed's group id.
\<close>

definition saveKeepsOthers :: "('db, 'seed, 'pb) seed_deps \<Rightarrow> bool" where
  "saveKeepsOthers D \<longleftrightarrow>
     (\<forall>db sd db' g. SetGroupSeed D db (ToPbGroupSeed D sd) = Inr db' \<longrightarrow> g \<noteq> GroupId D sd \<longrightarrow>
        GetGroupSeed D db' g = GetGroupSeed D db g)"

text \<open>
  A concrete world for the properties below: three seed files, the second unreadable; a
  database that is a map from group id to seed and already holds the seed of group
  \<open>a\<close>.
\<close>

definition demoFiles :: "FileInfo list" where
  "demoFiles = [\<lparr>IsDir = False, Name = ''a''\<rparr>,
                \<lparr>IsDir = False, Name = ''bad''\<rparr>,
                \<lparr>IsDir = False, Name = ''b''\<rparr>]"

definition demoDeps ::
  "(string \<Rightarrow> (string \<times> string) option, string \<times> string, string \<times> string) seed_deps" where
  "demoDeps =
     \<lparr>DirExist = (\<lambda>p. True),
      ReadDir = (\<lambda>p. Inr demoFiles),
      ReadFile = (\<lambda>p. if p = ''bad'' then Inl ''permission denied'' else Inr p),
      Join = (\<lambda>d n. n),
      Dir = (\<lambda>d. d),
      Unmarshal = (\<lambda>b. Inr (b, ''seed from file'')),
      GroupId = fst,
      ToPbGroupSeed = (\<lambda>sd. sd),
      GetGroupSeed = (\<lambda>db g. Inr (db g)),
      SetGroupSeed = (\<lambda>db pb. Inr (db(fst pb \<mapsto> pb)))\<rparr>"

definition demoState :: "(string \<Rightarrow> (string \<times> string) option) seed_state" where
  "demoState = \<lparr>appdb = [''a'' \<mapsto> (''a'', ''seed stored earlier'')], mainlog = []\<rparr>"

definition demoWorldEnv :: keystore_world where
  "demoWorldEnv =
     \<lparr>Getenv = (\<lambda>k. if k = ''RUM_KSPASSWD'' then ''secret'' else []),
      PassphrasePromptForUnlock = (''typed'', None)\<rparr>"

definition demoWorldPrompt :: keystore_world where
  "demoWorldPrompt =
     \<lparr>Getenv = (\<lambda>k. []), PassphrasePromptForUnlock = (''typed'', None)\<rparr>"

section \<open>mainRet (cmd main, second part of backup.go)\<close>

text \<open>
  \<open>mainRet\<close> starts the node, waits for a signal and shuts down. Its control flow is
  decided by the errors its calls return. The calls into packages that are not part of the
  verified sources answer through the world: \<open>answer w c\<close> is the error call \<open>c\<close> returns
  (\<open>None\<close> for nil), \<open>signal w\<close> the signal the process receives (\<open>None\<close> when none
  ever arrives and the receive blocks for good).
\<close>

datatype startup_call =
    InitNodeOptions | InitDefaultKeystore | SignKeytoPeerKeys | GetPeerInfo | NewDatastore
  | NewConnManager | NewNode | CreateDb | StatsInitDB | PubQueueDbInit | CreateAppDb

record process_world =
  answer :: "startup_call \<Rightarrow> error option"
  signal :: "string option"

text \<open>The fields of \<open>cli.Config\<close> that \<open>mainRet\<close> branches on or builds paths from.\<close>

record Config =
  PeerName :: string
  DataDir :: string
  IsBootstrap :: bool
  IsRexTestMode :: bool
  APIListenAddresses :: string

text \<open>
  The group manager of package \<open>chain\<close> is not part of the verified sources either: \<open>mainRet\<close>
  is given its operations. \<open>StopSyncAllGroups\<close> and \<open>TeardownAllGroups\<close> are called for
  their effect only, \<open>mainRet\<close> drops what they return.
\<close>

record 'm GroupMgr =
  InitGroupMgr :: 'm
  SetRumExchangeTestMode :: "'m \<Rightarrow> 'm"
  LoadAllGroups :: "'m \<Rightarrow> error option \<times> 'm"
  StartSyncAllGroups :: "'m \<Rightarrow> error option \<times> 'm"
  StopSyncAllGroups :: "'m \<Rightarrow> 'm"
  TeardownAllGroups :: "'m \<Rightarrow> 'm"

text \<open>
  How the process ends: \<open>Fatal\<close> is \<open>mainlog.Fatalf\<close> (the message is logged and the
  process exits with status 1), \<open>Panic\<close> a runtime panic, \<open>Blocked\<close> the receive from the
  signal channel that never returns, \<open>Return\<close> the value \<open>mainRet\<close> returns.
\<close>

datatype exit_status = Fatal error | Panic string | Blocked | Return int

datatype event =
    EvInitGroupMgr | EvSetRumExchangeTestMode | EvInitPublishQueueWatcher
  | EvLoadAllGroups | EvStartSyncAllGroups | EvSaveLocalSeedsToAppdata | EvStartAPIServer
  | EvStopSyncAllGroups | EvTeardownAllGroups | EvCloseDb

text \<open>
  What a run leaves: how it ended, the group manager as the run left it (\<open>None\<close> before
  \<open>InitGroupMgr\<close>), and the calls to the group manager and its neighbours, in order.
\<close>

record 'm process =
  status :: exit_status
  groupMgr :: "'m option"
  events :: "event list"

definition createPubQueueDb :: "process_world \<Rightarrow> path \<Rightarrow> error + path" where
  "createPubQueueDb w p =
     (case answer w PubQueueDbInit of
        Some e \<Rightarrow> Inl e
      | None \<Rightarrow> Inr (p @ ''_pubqueue''))"

text \<open>The end of \<open>mainRet\<close>, from the wait for a signal on.\<close>

definition awaitSignal ::
  "'m GroupMgr \<Rightarrow> process_world \<Rightarrow> Config \<Rightarrow> 'm option \<Rightarrow> event list \<Rightarrow> 'm process" where
  "awaitSignal G w config m evs =
     (case signal w of
        None \<Rightarrow> \<lparr>status = Blocked, groupMgr = m, events = evs\<rparr>
      | Some signalType \<Rightarrow>
          (if \<not> IsBootstrap config
           then \<lparr>status = Return 0,
                 groupMgr = map_option (\<lambda>x. TeardownAllGroups G (StopSyncAllGroups G x)) m,
                 events = evs @ [EvStopSyncAllGroups, EvTeardownAllGroups, EvCloseDb]\<rparr>
           else \<lparr>status = Return 0, groupMgr = m, events = evs\<rparr>))"

text \<open>The branch of a bootstrap node.\<close>

definition startBootstrap ::
  "'m GroupMgr \<Rightarrow> process_world \<Rightarrow> Config \<Rightarrow> 'm process" where
  "startBootstrap G w config =
     (case answer w NewConnManager of
        Some e \<Rightarrow> \<lparr>status = Fatal e, groupMgr = None, events = []\<rparr>
      | None \<Rightarrow>
     (case answer w NewNode of
        Some e \<Rightarrow> \<lparr>status = Fatal e, groupMgr = None, events = []\<rparr>
      | None \<Rightarrow>
     (case answer w CreateDb of
        Some e \<Rightarrow> \<lparr>status = Fatal e, groupMgr = None, events = []\<rparr>
      | None \<Rightarrow>
     (case answer w StatsInitDB of
        Some e \<Rightarrow> \<lparr>status = Fatal e, groupMgr = None, events = []\<rparr>
      | None \<Rightarrow> awaitSignal G w config None [EvStartAPIServer]))))"

text \<open>
  The branch of a normal node. The error of \<open>p2p.NewNode\<close> is not checked: the node it
  returns with an error is nil, and \<open>node.Host\<close> in the loop over the addresses
  dereferences it. \<open>config.APIListenAddresses[:1]\<close> is out of range for the empty
  string.
\<close>

definition startNode ::
  "'m GroupMgr \<Rightarrow> process_world \<Rightarrow> Config \<Rightarrow> 'm process" where
  "startNode G w config =
     (case answer w CreateDb of
        Some e \<Rightarrow> \<lparr>status = Fatal e, groupMgr = None, events = []\<rparr>
      | None \<Rightarrow>
     (case answer w NewConnManager of
        Some e \<Rightarrow> \<lparr>status = Fatal e, groupMgr = None, events = []\<rparr>
      | None \<Rightarrow>
     (case answer w NewNode of
        Some e \<Rightarrow> \<lparr>status = Panic ''nil pointer dereference'', groupMgr = None, events = []\<rparr>
      | None \<Rightarrow>
     (case answer w StatsInitDB of
        Some e \<Rightarrow> \<lparr>status = Fatal e, groupMgr = None, events = []\<rparr>
      | None \<Rightarrow>
     (let m1 = (if IsRexTestMode config
                then SetRumExchangeTestMode G (InitGroupMgr G) else InitGroupMgr G);
          ev1 = (if IsRexTestMode config
                 then [EvInitGroupMgr, EvSetRumExchangeTestMode] else [EvInitGroupMgr])
      in
     (case createPubQueueDb w (DataDir config @ ''/'' @ PeerName config) of
        Inl e \<Rightarrow> \<lparr>status = Fatal e, groupMgr = Some m1, events = ev1\<rparr>
      | Inr pubqueueDb \<Rightarrow>
     (case LoadAllGroups G m1 of
        (Some e, m2) \<Rightarrow>
          \<lparr>status = Fatal e, groupMgr = Some m2,
           events = ev1 @ [EvInitPublishQueueWatcher, EvLoadAllGroups]\<rparr>
      | (None, m2) \<Rightarrow>
     (case StartSyncAllGroups G m2 of
        (Some e, m3) \<Rightarrow>
          \<lparr>status = Fatal e, groupMgr = Some m3,
           events = ev1 @ [EvInitPublishQueueWatcher, EvLoadAllGroups, EvStartSyncAllGroups]\<rparr>
      | (None, m3) \<Rightarrow>
     (case answer w CreateAppDb of
        Some e \<Rightarrow>
          \<lparr>status = Fatal e, groupMgr = Some m3,
           events = ev1 @ [EvInitPublishQueueWatcher, EvLoadAllGroups, EvStartSyncAllGroups]\<rparr>
      | None \<Rightarrow>
     (if APIListenAddresses config = []
      then \<lparr>status = Panic ''slice bounds out of range'', groupMgr = Some m3,
            events = ev1 @ [EvInitPublishQueueWatcher, EvLoadAllGroups, EvStartSyncAllGroups,
                            EvSaveLocalSeedsToAppdata]\<rparr>
      else awaitSignal G w config (Some m3)
             (ev1 @ [EvInitPublishQueueWatcher, EvLoadAllGroups, EvStartSyncAllGroups,
                     EvSaveLocalSeedsToAppdata, EvStartAPIServer])))))))))))"

definition mainRet :: "'m GroupMgr \<Rightarrow> process_world \<Rightarrow> Config \<Rightarrow> 'm process" where
  "mainRet G w config =
     (case answer w InitNodeOptions of
        Some e \<Rightarrow> \<lparr>status = Fatal e, groupMgr = None, events = []\<rparr>
      | None \<Rightarrow>
     (case answer w InitDefaultKeystore of
        Some e \<Rightarrow> \<lparr>status = Fatal e, groupMgr = None, events = []\<rparr>
      | None \<Rightarrow>
     (case answer w SignKeytoPeerKeys of
        Some e \<Rightarrow> \<lparr>status = Fatal e, groupMgr = None, events = []\<rparr>
      | None \<Rightarrow>
     (case answer w GetPeerInfo of
        Some e \<Rightarrow> \<lparr>status = Fatal e, groupMgr = None, events = []\<rparr>
      | None \<Rightarrow>
     (case answer w NewDatastore of
        Some e \<Rightarrow> \<lparr>status = Fatal e, groupMgr = None, events = []\<rparr>
      | None \<Rightarrow>
     (if IsBootstrap config then startBootstrap G w config else startNode G w config))))))"

text \<open>
  The calls whose error \<open>mainRet\<close> checks, in the order it makes them. On a bootstrap
  node the error of \<open>p2p.NewNode\<close> is one of them; on a normal node it is not.
\<close>

definition checkedCalls :: "Config \<Rightarrow> startup_call list" where
  "checkedCalls config =
     [InitNodeOptions, InitDefaultKeystore, SignKeytoPeerKeys, GetPeerInfo, NewDatastore] @
     (if IsBootstrap config
      then [NewConnManager, NewNode, CreateDb, StatsInitDB]
      else [CreateDb, NewConnManager, StatsInitDB, PubQueueDbInit, CreateAppDb])"

section \<open>LoadAllGroups of the group manager, as the specification describes it\<close>

text \<open>
  Modelled from the spec: the error kinds of section 7. The package that defines them is
  not part of the verified sources.
\<close>

datatype fault = ValidationFault string | StorageFault string | QuorumTimeout | QueueExhausted

text \<open>
  Modelled from the spec: a fault as the Go error the group manager returns for it. The
  spec names the kinds only; the message is the kind's name and the cause.
\<close>

definition faultError :: "fault \<Rightarrow> error" where
  "faultError f =
     (case f of
        ValidationFault why \<Rightarrow> ''ValidationFault: '' @ why
      | StorageFault why \<Rightarrow> ''StorageFault: '' @ why
      | QuorumTimeout \<Rightarrow> ''QuorumTimeout''
      | QueueExhausted \<Rightarrow> ''QueueExhausted'')"

text \<open>
  Modelled from the spec: the persisted metadata of the groups as the Storage Port hands
  it out (section 4.1, LoadAllGroups). The read as a whole fails, or it returns one
  record per group; a record is the group's metadata or is corrupt. Of a group's metadata
  the model keeps the group id and the highest committed height (section 3, Group).
\<close>

record GroupItem =
  ItemGroupId :: string
  HighestHeight :: nat

datatype stored_meta = CorruptMeta string | GroupMeta GroupItem

text \<open>
  Modelled from the spec: the registry of the GroupManager (section 4.1), keyed by group
  id. An entry is constructed from the group's metadata and is not started: \<open>started\<close>
  says whether the group's message loop and publish-queue task run. \<open>skippedGroups\<close> is
  the log of the records LoadAllGroups skipped.
\<close>

record group_entry =
  entryItem :: GroupItem
  started :: bool

record groupmgr =
  registry :: "string \<rightharpoonup> group_entry"
  metaStore :: "error + stored_meta list"
  skippedGroups :: "string list"
  rexTestMode :: bool

text \<open>
  Modelled from the spec: LoadAllGroups (section 4.1) "reads persisted group metadata
  from the Storage Port, constructs one entry per group, does not yet start network
  activity. Fails with a StorageFault if metadata cannot be read; partial failures (one
  group's metadata is corrupt) are skipped and logged, not fatal to the whole manager."
\<close>

fun loadGroup :: "groupmgr \<Rightarrow> stored_meta \<Rightarrow> groupmgr" where
  "loadGroup m (CorruptMeta why) = m\<lparr>skippedGroups := skippedGroups m @ [why]\<rparr>"
| "loadGroup m (GroupMeta item) =
     m\<lparr>registry := (registry m)(ItemGroupId item \<mapsto> \<lparr>entryItem = item, started = False\<rparr>)\<rparr>"

text \<open>
  Modelled from the spec: LoadAllGroups over the whole metadata, \<open>loadGroup\<close> being its
  step for one record.
\<close>

definition specLoadAllGroups :: "groupmgr \<Rightarrow> fault option \<times> groupmgr" where
  "specLoadAllGroups m =
     (case metaStore m of
        Inl e \<Rightarrow> (Some (StorageFault e), m)
      | Inr metas \<Rightarrow> (None, foldl loadGroup m metas))"

text \<open>
  Modelled from the spec: StartSyncAllGroups and StopSyncAllGroups (section 4.1) start
  and stop every registered group and have no failure of their own; TeardownAllGroups
  "stops all groups, then releases in-memory state".
\<close>

definition specStartSyncAllGroups :: "groupmgr \<Rightarrow> groupmgr" where
  "specStartSyncAllGroups m =
     m\<lparr>registry := (\<lambda>g. map_option (\<lambda>en. en\<lparr>started := True\<rparr>) (registry m g))\<rparr>"

text \<open>Modelled from the spec: StopSyncAllGroups (section 4.1).\<close>

definition specStopSyncAllGroups :: "groupmgr \<Rightarrow> groupmgr" where
  "specStopSyncAllGroups m =
     m\<lparr>registry := (\<lambda>g. map_option (\<lambda>en. en\<lparr>started := False\<rparr>) (registry m g))\<rparr>"

text \<open>Modelled from the spec: TeardownAllGroups (section 4.1).\<close>

definition specTeardownAllGroups :: "groupmgr \<Rightarrow> groupmgr" where
  "specTeardownAllGroups m = (specStopSyncAllGroups m)\<lparr>registry := Map.empty\<rparr>"

text \<open>
  Modelled from the spec: the group manager \<open>mainRet\<close> is given, over the persisted
  metadata \<open>store\<close>.
\<close>

definition specGroupMgr :: "(error + stored_meta list) \<Rightarrow> groupmgr GroupMgr" where
  "specGroupMgr store =
     \<lparr>InitGroupMgr =
        \<lparr>registry = Map.empty, metaStore = store, skippedGroups = [], rexTestMode = False\<rparr>,
      SetRumExchangeTestMode = (\<lambda>m. m\<lparr>rexTestMode := True\<rparr>),
      LoadAllGroups = (\<lambda>m. case specLoadAllGroups m of (f, m') \<Rightarrow> (map_option faultError f, m')),
      StartSyncAllGroups = (\<lambda>m. (None, specStartSyncAllGroups m)),
      StopSyncAllGroups = specStopSyncAllGroups,
      TeardownAllGroups = specTeardownAllGroups\<rparr>"

text \<open>The group manager as \<open>mainRet\<close> hands it to LoadAllGroups.\<close>

definition loadedMgr :: "'m GroupMgr \<Rightarrow> Config \<Rightarrow> 'm" where
  "loadedMgr G config =
     (if IsRexTestMode config then SetRumExchangeTestMode G (InitGroupMgr G) else InitGroupMgr G)"

text \<open>The group ids of the well-formed records, and the notes of the corrupt ones.\<close>

fun metaIds :: "stored_meta list \<Rightarrow> string set" where
  "metaIds [] = {}"
| "metaIds (CorruptMeta why # ms) = metaIds ms"
| "metaIds (GroupMeta item # ms) = insert (ItemGroupId item) (metaIds ms)"

fun corruptNotes :: "stored_meta list \<Rightarrow> string list" where
  "corruptNotes [] = []"
| "corruptNotes (CorruptMeta why # ms) = why # corruptNotes ms"
| "corruptNotes (GroupMeta item # ms) = corruptNotes ms"

text \<open>
  Concrete runs: a group manager that does nothing, a normal node's configuration, a world
  in which only the connection manager fails, a world in which nothing fails, and
  metadata of three groups with the second record corrupt.
\<close>

definition unitMgr :: "unit GroupMgr" where
  "unitMgr =
     \<lparr>InitGroupMgr = (), SetRumExchangeTestMode = (\<lambda>m. m), LoadAllGroups = (\<lambda>m. (None, m)),
      StartSyncAllGroups = (\<lambda>m. (None, m)), StopSyncAllGroups = (\<lambda>m. m),
      TeardownAllGroups = (\<lambda>m. m)\<rparr>"

definition demoConfig :: Config where
  "demoConfig =
     \<lparr>PeerName = ''peer'', DataDir = ''data'', IsBootstrap = False, IsRexTestMode = False,
      APIListenAddresses = '':8002''\<rparr>"

definition connWorld :: process_world where
  "connWorld =
     \<lparr>answer = (\<lambda>c. if c = NewConnManager then Some ''invalid connection limits'' else None),
      signal = Some ''interrupt''\<rparr>"

definition quietWorld :: process_world where
  "quietWorld = \<lparr>answer = (\<lambda>c. None), signal = Some ''interrupt''\<rparr>"

definition demoMetas :: "stored_meta list" where
  "demoMetas =
     [GroupMeta \<lparr>ItemGroupId = ''g1'', HighestHeight = 7\<rparr>,
      CorruptMeta ''group record 2: unmarshal failed'',
      GroupMeta \<lparr>ItemGroupId = ''g3'', HighestHeight = 0\<rparr>]"

section \<open>Properties of GetKeystorePassword\<close>

text \<open>
  Claim C9. When the environment variable RUM_KSPASSWD is not empty,
  \<open>GetKeystorePassword\<close> returns its value with a nil error and does not prompt; the
  interactive prompt is shown exactly when the variable is empty, and then the prompt's
  password and error are what the function returns.
\<close>

theorem GetKeystorePassword_spec:
  "(Getenv w ''RUM_KSPASSWD'' \<noteq> [] \<longrightarrow>
      password (GetKeystorePassword w) = Getenv w ''RUM_KSPASSWD'' \<and>
      password_err (GetKeystorePassword w) = None \<and>
      \<not> prompted (GetKeystorePassword w)) \<and>
   (prompted (GetKeystorePassword w) \<longleftrightarrow> Getenv w ''RUM_KSPASSWD'' = []) \<and>
   (Getenv w ''RUM_KSPASSWD'' = [] \<longrightarrow>
      password (GetKeystorePassword w) = fst (PassphrasePromptForUnlock w) \<and>
      password_err (GetKeystorePassword w) = snd (PassphrasePromptForUnlock w))"
  by (simp add: GetKeystorePassword_def Let_def)

theorem GetKeystorePassword_spec_witness:
  "Getenv demoWorldEnv ''RUM_KSPASSWD'' \<noteq> [] \<and>
   password (GetKeystorePassword demoWorldEnv) = ''secret'' \<and>
   password_err (GetKeystorePassword demoWorldEnv) = None \<and>
   \<not> prompted (GetKeystorePassword demoWorldEnv) \<and>
   Getenv demoWorldPrompt ''RUM_KSPASSWD'' = [] \<and>
   prompted (GetKeystorePassword demoWorldPrompt) \<and>
   password (GetKeystorePassword demoWorldPrompt) = ''typed''"
  using GetKeystorePassword_spec [of demoWorldEnv] GetKeystorePassword_spec [of demoWorldPrompt]
  by (simp add: demoWorldEnv_def demoWorldPrompt_def)

section \<open>Properties of saveLocalSeedsToAppdata\<close>

lemma appdb_logError [simp]: "appdb (logError f e s) = appdb s"
  by (simp add: logError_def)

lemma appdb_logDebug [simp]: "appdb (logDebug f a s) = appdb s"
  by (simp add: logDebug_def)

lemma appdb_seedIter_cong:
  "appdb s = appdb s' \<Longrightarrow> appdb (seedIter D p f s) = appdb (seedIter D p f s')"
  by (simp add: seedIter_def split: sum.splits option.splits)

lemma appdb_seedLoop_cong:
  "appdb s = appdb s' \<Longrightarrow> appdb (seedLoop D p fs s) = appdb (seedLoop D p fs s')"
proof (induction fs arbitrary: s s')
  case Nil
  then show ?case by simp
next
  case (Cons f fs)
  have "appdb (seedIter D p f s) = appdb (seedIter D p f s')"
    using Cons.prems by (rule appdb_seedIter_cong)
  then have "appdb (seedLoop D p fs (seedIter D p f s)) = appdb (seedLoop D p fs (seedIter D p f s'))"
    by (rule Cons.IH)
  then show ?case by simp
qed

lemma seedLoop_append:
  "seedLoop D p (fs1 @ fs2) s = seedLoop D p fs2 (seedLoop D p fs1 s)"
  by (induction fs1 arbitrary: s) simp_all

lemma seedFails_iter:
  "seedFails D p f (appdb s) \<Longrightarrow> appdb (seedIter D p f s) = appdb s"
  by (simp add: seedFails_def seedIter_def split: sum.splits option.splits)

lemma seedFails_logged:
  "seedFails D p f (appdb s) \<Longrightarrow> \<exists>fmt e. mainlog (seedIter D p f s) = mainlog s @ [Errorf fmt e]"
  unfolding seedFails_def seedIter_def logError_def
  by (fastforce split: sum.splits option.splits)

lemma seedIter_effect:
  "appdb (seedIter D p f s) = appdb s \<or>
   (\<exists>sd. GetGroupSeed D (appdb s) (GroupId D sd) = Inr None \<and>
         SetGroupSeed D (appdb s) (ToPbGroupSeed D sd) = Inr (appdb (seedIter D p f s)))"
  unfolding seedIter_def logError_def logDebug_def
  by (simp split: sum.splits option.splits) blast

lemma seedIter_keeps_stored:
  assumes keep: "saveKeepsOthers D" and stored: "GetGroupSeed D (appdb s) g = Inr (Some v)"
  shows "GetGroupSeed D (appdb (seedIter D p f s)) g = Inr (Some v)"
proof -
  from seedIter_effect [of D p f s] show ?thesis
  proof
    assume "appdb (seedIter D p f s) = appdb s"
    then show ?thesis using stored by simp
  next
    assume "\<exists>sd. GetGroupSeed D (appdb s) (GroupId D sd) = Inr None \<and>
      SetGroupSeed D (appdb s) (ToPbGroupSeed D sd) = Inr (appdb (seedIter D p f s))"
    then obtain sd where
      look: "GetGroupSeed D (appdb s) (GroupId D sd) = Inr None" and
      save: "SetGroupSeed D (appdb s) (ToPbGroupSeed D sd) = Inr (appdb (seedIter D p f s))"
      by blast
    from look stored have "g \<noteq> GroupId D sd" by auto
    with keep save have "GetGroupSeed D (appdb (seedIter D p f s)) g = GetGroupSeed D (appdb s) g"
      unfolding saveKeepsOthers_def by blast
    then show ?thesis using stored by simp
  qed
qed

lemma seedLoop_keeps_stored:
  "saveKeepsOthers D \<Longrightarrow> GetGroupSeed D (appdb s) g = Inr (Some v) \<Longrightarrow>
   GetGroupSeed D (appdb (seedLoop D p fs s)) g = Inr (Some v)"
proof (induction fs arbitrary: s)
  case Nil
  then show ?case by simp
next
  case (Cons f fs)
  from Cons.prems have "GetGroupSeed D (appdb (seedIter D p f s)) g = Inr (Some v)"
    by (rule seedIter_keeps_stored)
  with Cons.prems(1) have "GetGroupSeed D (appdb (seedLoop D p fs (seedIter D p f s))) g = Inr (Some v)"
    by (rule Cons.IH)
  then show ?case by simp
qed

lemma saveLocalSeeds_keeps_stored:
  assumes keep: "saveKeepsOthers D" and stored: "GetGroupSeed D (appdb s) g = Inr (Some v)"
  shows "GetGroupSeed D (appdb (saveLocalSeedsToAppdata D dataDir s)) g = Inr (Some v)"
proof -
  let ?p = "Join D (Dir D dataDir) ''seeds''"
  show ?thesis
  proof (cases "DirExist D ?p")
    case False
    then show ?thesis using stored by (simp add: saveLocalSeedsToAppdata_def)
  next
    case True
    show ?thesis
    proof (cases "ReadDir D ?p")
      case (Inl e)
      then show ?thesis using True stored by (simp add: saveLocalSeedsToAppdata_def)
    next
      case (Inr seeds)
      have "GetGroupSeed D (appdb (seedLoop D ?p seeds s)) g = Inr (Some v)"
        using keep stored by (rule seedLoop_keeps_stored)
      then show ?thesis using True Inr by (simp add: saveLocalSeedsToAppdata_def)
    qed
  qed
qed

lemma seedIter_ReadDir [simp]: "seedIter (D\<lparr>ReadDir := r\<rparr>) p f s = seedIter D p f s"
  by (simp add: seedIter_def split: sum.splits option.splits)

lemma seedLoop_ReadDir [simp]: "seedLoop (D\<lparr>ReadDir := r\<rparr>) p fs s = seedLoop D p fs s"
  by (induction fs arbitrary: s) simp_all

lemma mainlog_seedIter: "\<exists>ys. mainlog (seedIter D p f s) = mainlog s @ ys"
  by (simp add: seedIter_def logError_def logDebug_def split: sum.splits option.splits)

lemma mainlog_seedLoop: "\<exists>ys. mainlog (seedLoop D p fs s) = mainlog s @ ys"
proof (induction fs arbitrary: s)
  case Nil
  then show ?case by simp
next
  case (Cons f fs)
  obtain ys where a: "mainlog (seedIter D p f s) = mainlog s @ ys"
    using mainlog_seedIter by blast
  obtain zs where
    b: "mainlog (seedLoop D p fs (seedIter D p f s)) = mainlog (seedIter D p f s) @ zs"
    using Cons.IH by blast
  from a b show ?case by simp
qed

lemma seedLoop_failure_logged:
  assumes "seedFails D p f (appdb (seedLoop D p fs1 s))"
  shows "\<exists>fmt e. Errorf fmt e \<in> set (mainlog (seedLoop D p (fs1 @ f # fs2) s))"
proof -
  let ?s1 = "seedLoop D p fs1 s"
  obtain fmt e where a: "mainlog (seedIter D p f ?s1) = mainlog ?s1 @ [Errorf fmt e]"
    using seedFails_logged [OF assms] by blast
  obtain zs where
    b: "mainlog (seedLoop D p fs2 (seedIter D p f ?s1)) = mainlog (seedIter D p f ?s1) @ zs"
    using mainlog_seedLoop by blast
  have "Errorf fmt e \<in> set (mainlog (seedLoop D p (fs1 @ f # fs2) s))"
    using a b by (simp add: seedLoop_append)
  then show ?thesis by blast
qed

lemma seedSkipped_iter:
  "seedSkipped D p f (appdb s) \<Longrightarrow> appdb (seedIter D p f s) = appdb s"
  by (simp add: seedSkipped_def seedIter_def split: sum.splits option.splits)

lemma seedLoop_drop:
  assumes "appdb (seedIter D p f (seedLoop D p fs1 s)) = appdb (seedLoop D p fs1 s)"
  shows "appdb (seedLoop D p (fs1 @ f # fs2) s) = appdb (seedLoop D p (fs1 @ fs2) s)"
proof -
  have "appdb (seedLoop D p fs2 (seedIter D p f (seedLoop D p fs1 s))) =
        appdb (seedLoop D p fs2 (seedLoop D p fs1 s))"
    using assms by (rule appdb_seedLoop_cong)
  then show ?thesis by (simp add: seedLoop_append)
qed

lemma saveLocalSeeds_ReadDir:
  assumes "DirExist D (Join D (Dir D dataDir) ''seeds'')"
    and "ReadDir D (Join D (Dir D dataDir) ''seeds'') = Inr fs"
  shows "saveLocalSeedsToAppdata D dataDir s = seedLoop D (Join D (Dir D dataDir) ''seeds'') fs s"
  using assms by (simp add: saveLocalSeedsToAppdata_def)

text \<open>
  Claim C10. \<open>saveLocalSeedsToAppdata\<close> leaves alone what is stored and isolates faults
  per seed file. Provided saving one group's seed changes no other group's stored seed:
  (1) a seed the database holds for a group before the call is the seed it holds for that
  group after the call; (2) a seed file that is skipped because its group already has a
  stored seed, or that fails (reading, decoding, the lookup or the save returns an error),
  leaves the database as it found it, and the files after it are processed all the same:
  the call ends with the database it would end with if the directory did not hold that
  file; (3) each failing file adds an error line to the log.
\<close>

theorem saveLocalSeedsToAppdata_isolated:
  assumes keep: "saveKeepsOthers D"
  shows
    "(GetGroupSeed D (appdb s) g = Inr (Some v) \<longrightarrow>
        GetGroupSeed D (appdb (saveLocalSeedsToAppdata D dataDir s)) g = Inr (Some v)) \<and>
     (DirExist D (Join D (Dir D dataDir) ''seeds'') \<and>
      ReadDir D (Join D (Dir D dataDir) ''seeds'') = Inr (fs1 @ f # fs2) \<and>
      (seedSkipped D (Join D (Dir D dataDir) ''seeds'') f
         (appdb (seedLoop D (Join D (Dir D dataDir) ''seeds'') fs1 s)) \<or>
       seedFails D (Join D (Dir D dataDir) ''seeds'') f
         (appdb (seedLoop D (Join D (Dir D dataDir) ''seeds'') fs1 s))) \<longrightarrow>
        appdb (saveLocalSeedsToAppdata D dataDir s) =
        appdb (saveLocalSeedsToAppdata (D\<lparr>ReadDir := \<lambda>p. Inr (fs1 @ fs2)\<rparr>) dataDir s)) \<and>
     (DirExist D (Join D (Dir D dataDir) ''seeds'') \<and>
      ReadDir D (Join D (Dir D dataDir) ''seeds'') = Inr (fs1 @ f # fs2) \<and>
      seedFails D (Join D (Dir D dataDir) ''seeds'') f
         (appdb (seedLoop D (Join D (Dir D dataDir) ''seeds'') fs1 s)) \<longrightarrow>
        (\<exists>fmt e. Errorf fmt e \<in> set (mainlog (saveLocalSeedsToAppdata D dataDir s))))"
proof (intro conjI impI)
  assume "GetGroupSeed D (appdb s) g = Inr (Some v)"
  with keep show "GetGroupSeed D (appdb (saveLocalSeedsToAppdata D dataDir s)) g = Inr (Some v)"
    by (rule saveLocalSeeds_keeps_stored)
next
  let ?p = "Join D (Dir D dataDir) ''seeds''"
  let ?s1 = "seedLoop D ?p fs1 s"
  assume a: "DirExist D ?p \<and> ReadDir D ?p = Inr (fs1 @ f # fs2) \<and>
    (seedSkipped D ?p f (appdb ?s1) \<or> seedFails D ?p f (appdb ?s1))"
  then have same: "appdb (seedIter D ?p f ?s1) = appdb ?s1"
    using seedSkipped_iter [of D ?p f ?s1] seedFails_iter [of D ?p f ?s1] by blast
  have l: "saveLocalSeedsToAppdata D dataDir s = seedLoop D ?p (fs1 @ f # fs2) s"
    using a by (simp add: saveLocalSeeds_ReadDir)
  have r: "saveLocalSeedsToAppdata (D\<lparr>ReadDir := \<lambda>p. Inr (fs1 @ fs2)\<rparr>) dataDir s =
           seedLoop D ?p (fs1 @ fs2) s"
    using a by (simp add: saveLocalSeedsToAppdata_def)
  show "appdb (saveLocalSeedsToAppdata D dataDir s) =
        appdb (saveLocalSeedsToAppdata (D\<lparr>ReadDir := \<lambda>p. Inr (fs1 @ fs2)\<rparr>) dataDir s)"
    unfolding l r using same by (rule seedLoop_drop)
next
  let ?p = "Join D (Dir D dataDir) ''seeds''"
  let ?s1 = "seedLoop D ?p fs1 s"
  assume a: "DirExist D ?p \<and> ReadDir D ?p = Inr (fs1 @ f # fs2) \<and> seedFails D ?p f (appdb ?s1)"
  have l: "saveLocalSeedsToAppdata D dataDir s = seedLoop D ?p (fs1 @ f # fs2) s"
    using a by (simp add: saveLocalSeeds_ReadDir)
  from a have "seedFails D ?p f (appdb ?s1)" by simp
  then show "\<exists>fmt e. Errorf fmt e \<in> set (mainlog (saveLocalSeedsToAppdata D dataDir s))"
    unfolding l by (rule seedLoop_failure_logged)
qed

lemma demoDeps_keeps: "saveKeepsOthers demoDeps"
  by (auto simp add: saveKeepsOthers_def demoDeps_def)

theorem saveLocalSeedsToAppdata_isolated_witness:
  "saveKeepsOthers demoDeps \<and>
   GetGroupSeed demoDeps (appdb demoState) ''a'' = Inr (Some (''a'', ''seed stored earlier'')) \<and>
   GetGroupSeed demoDeps (appdb (saveLocalSeedsToAppdata demoDeps ''data'' demoState)) ''a'' =
     Inr (Some (''a'', ''seed stored earlier'')) \<and>
   seedFails demoDeps ''seeds'' \<lparr>IsDir = False, Name = ''bad''\<rparr>
     (appdb (seedLoop demoDeps ''seeds'' [\<lparr>IsDir = False, Name = ''a''\<rparr>] demoState)) \<and>
   appdb (saveLocalSeedsToAppdata demoDeps ''data'' demoState) =
   appdb (saveLocalSeedsToAppdata
     (demoDeps\<lparr>ReadDir := \<lambda>p. Inr ([\<lparr>IsDir = False, Name = ''a''\<rparr>] @ [\<lparr>IsDir = False, Name = ''b''\<rparr>])\<rparr>)
     ''data'' demoState) \<and>
   (\<exists>fmt e. Errorf fmt e \<in> set (mainlog (saveLocalSeedsToAppdata demoDeps ''data'' demoState))) \<and>
   GetGroupSeed demoDeps (appdb (saveLocalSeedsToAppdata demoDeps ''data'' demoState)) ''b'' =
     Inr (Some (''b'', ''seed from file''))"
proof -
  have fails: "seedFails demoDeps ''seeds'' \<lparr>IsDir = False, Name = ''bad''\<rparr>
     (appdb (seedLoop demoDeps ''seeds'' [\<lparr>IsDir = False, Name = ''a''\<rparr>] demoState))"
    by (simp add: seedFails_def demoDeps_def)
  have rd: "ReadDir demoDeps ''seeds'' =
      Inr ([\<lparr>IsDir = False, Name = ''a''\<rparr>] @ \<lparr>IsDir = False, Name = ''bad''\<rparr> # [\<lparr>IsDir = False, Name = ''b''\<rparr>])"
    by (simp add: demoDeps_def demoFiles_def)
  have p: "Join demoDeps (Dir demoDeps ''data'') ''seeds'' = ''seeds''"
    by (simp add: demoDeps_def)
  have dir: "DirExist demoDeps ''seeds''"
    by (simp add: demoDeps_def)
  have stored: "GetGroupSeed demoDeps (appdb demoState) ''a'' = Inr (Some (''a'', ''seed stored earlier''))"
    by (simp add: demoDeps_def demoState_def)
  have b: "GetGroupSeed demoDeps (appdb (saveLocalSeedsToAppdata demoDeps ''data'' demoState)) ''b'' =
     Inr (Some (''b'', ''seed from file''))"
    by (simp add: saveLocalSeedsToAppdata_def seedIter_def logError_def logDebug_def
        demoDeps_def demoFiles_def demoState_def)
  note t = saveLocalSeedsToAppdata_isolated [OF demoDeps_keeps,
      of demoState "''a''" "(''a'', ''seed stored earlier'')" "''data''"
         "[\<lparr>IsDir = False, Name = ''a''\<rparr>]" "\<lparr>IsDir = False, Name = ''bad''\<rparr>"
         "[\<lparr>IsDir = False, Name = ''b''\<rparr>]", unfolded p]
  from t stored have c1:
    "GetGroupSeed demoDeps (appdb (saveLocalSeedsToAppdata demoDeps ''data'' demoState)) ''a'' =
     Inr (Some (''a'', ''seed stored earlier''))"
    by blast
  from t dir rd fails have c2:
    "appdb (saveLocalSeedsToAppdata demoDeps ''data'' demoState) =
     appdb (saveLocalSeedsToAppdata
       (demoDeps\<lparr>ReadDir := \<lambda>p. Inr ([\<lparr>IsDir = False, Name = ''a''\<rparr>] @ [\<lparr>IsDir = False, Name = ''b''\<rparr>])\<rparr>)
       ''data'' demoState)"
    by blast
  from t dir rd fails have c3:
    "\<exists>fmt e. Errorf fmt e \<in> set (mainlog (saveLocalSeedsToAppdata demoDeps ''data'' demoState))"
    by blast
  from demoDeps_keeps stored c1 fails c2 c3 b show ?thesis
    by (intro conjI)
qed

section \<open>Properties of mainRet\<close>

lemma status_awaitSignal:
  "status (awaitSignal G w config m evs) = (case signal w of None \<Rightarrow> Blocked | Some s \<Rightarrow> Return 0)"
  by (simp add: awaitSignal_def split: option.splits)

lemma set_checkedCalls:
  "set (checkedCalls config) =
     {InitNodeOptions, InitDefaultKeystore, SignKeytoPeerKeys, GetPeerInfo, NewDatastore} \<union>
     (if IsBootstrap config
      then {NewConnManager, NewNode, CreateDb, StatsInitDB}
      else {CreateDb, NewConnManager, StatsInitDB, PubQueueDbInit, CreateAppDb})"
  by (auto simp add: checkedCalls_def)

lemma startBootstrap_failure:
  assumes "c \<in> {NewConnManager, NewNode, CreateDb, StatsInitDB}" and "answer w c \<noteq> None"
  shows "\<exists>e. status (startBootstrap G w config) = Fatal e"
  using assms by (auto simp add: startBootstrap_def split: option.splits)

lemma startNode_failure:
  assumes "c \<in> {CreateDb, NewConnManager, StatsInitDB, PubQueueDbInit, CreateAppDb}"
    and "answer w c \<noteq> None" and "answer w NewNode = None"
  shows "\<exists>e. status (startNode G w config) = Fatal e"
  using assms
  by (auto simp add: startNode_def createPubQueueDb_def Let_def split: option.splits sum.splits prod.splits)

lemma mainRet_failure:
  assumes "c \<in> set (checkedCalls config)" and "answer w c \<noteq> None"
    and "IsBootstrap config \<or> answer w NewNode = None"
  shows "\<exists>e. status (mainRet G w config) = Fatal e"
proof (cases "\<exists>c' \<in> {InitNodeOptions, InitDefaultKeystore, SignKeytoPeerKeys, GetPeerInfo, NewDatastore}.
      answer w c' \<noteq> None")
  case True
  then show ?thesis
    by (auto simp add: mainRet_def split: option.splits)
next
  case pre: False
  then have m: "mainRet G w config =
      (if IsBootstrap config then startBootstrap G w config else startNode G w config)"
    by (simp add: mainRet_def)
  from pre assms(2)
  have later: "c \<notin> {InitNodeOptions, InitDefaultKeystore, SignKeytoPeerKeys, GetPeerInfo, NewDatastore}"
    by blast
  show ?thesis
  proof (cases "IsBootstrap config")
    case True
    with later assms(1) have "c \<in> {NewConnManager, NewNode, CreateDb, StatsInitDB}"
      by (simp add: set_checkedCalls)
    then have "\<exists>e. status (startBootstrap G w config) = Fatal e"
      using assms(2) by (rule startBootstrap_failure)
    then show ?thesis using m True by simp
  next
    case nb: False
    with later assms(1)
    have "c \<in> {CreateDb, NewConnManager, StatsInitDB, PubQueueDbInit, CreateAppDb}"
      by (simp add: set_checkedCalls)
    moreover from nb assms(3) have "answer w NewNode = None" by simp
    ultimately have "\<exists>e. status (startNode G w config) = Fatal e"
      using assms(2) by (simp add: startNode_failure)
    then show ?thesis using m nb by simp
  qed
qed

lemma mainRet_quiet:
  assumes "\<forall>c \<in> set (checkedCalls config). answer w c = None" and "\<not> IsBootstrap config"
    and "answer w NewNode = None"
  shows "mainRet G w config =
     (case LoadAllGroups G (loadedMgr G config) of
        (Some e, m2) \<Rightarrow>
          \<lparr>status = Fatal e, groupMgr = Some m2,
           events = (if IsRexTestMode config
                     then [EvInitGroupMgr, EvSetRumExchangeTestMode] else [EvInitGroupMgr]) @
                    [EvInitPublishQueueWatcher, EvLoadAllGroups]\<rparr>
      | (None, m2) \<Rightarrow>
     (case StartSyncAllGroups G m2 of
        (Some e, m3) \<Rightarrow>
          \<lparr>status = Fatal e, groupMgr = Some m3,
           events = (if IsRexTestMode config
                     then [EvInitGroupMgr, EvSetRumExchangeTestMode] else [EvInitGroupMgr]) @
                    [EvInitPublishQueueWatcher, EvLoadAllGroups, EvStartSyncAllGroups]\<rparr>
      | (None, m3) \<Rightarrow>
     (if APIListenAddresses config = []
      then \<lparr>status = Panic ''slice bounds out of range'', groupMgr = Some m3,
            events = (if IsRexTestMode config
                     then [EvInitGroupMgr, EvSetRumExchangeTestMode] else [EvInitGroupMgr]) @
                     [EvInitPublishQueueWatcher, EvLoadAllGroups, EvStartSyncAllGroups,
                            EvSaveLocalSeedsToAppdata]\<rparr>
      else awaitSignal G w config (Some m3)
             ((if IsRexTestMode config
                     then [EvInitGroupMgr, EvSetRumExchangeTestMode] else [EvInitGroupMgr]) @
              [EvInitPublishQueueWatcher, EvLoadAllGroups, EvStartSyncAllGroups,
                     EvSaveLocalSeedsToAppdata, EvStartAPIServer]))))"
  using assms
  by (simp add: set_checkedCalls mainRet_def startNode_def createPubQueueDb_def loadedMgr_def Let_def
      split: prod.splits option.splits)

lemma mainRet_load_fatal:
  assumes "\<forall>c \<in> set (checkedCalls config). answer w c = None" and "\<not> IsBootstrap config"
    and "answer w NewNode = None"
    and "fst (LoadAllGroups G (loadedMgr G config)) = Some e"
  shows "status (mainRet G w config) = Fatal e"
proof -
  obtain m2 where "LoadAllGroups G (loadedMgr G config) = (Some e, m2)"
    using assms(4) by (cases "LoadAllGroups G (loadedMgr G config)") simp
  then show ?thesis by (simp add: mainRet_quiet [OF assms(1,2,3)])
qed

lemma mainRet_start_fatal:
  assumes "\<forall>c \<in> set (checkedCalls config). answer w c = None" and "\<not> IsBootstrap config"
    and "answer w NewNode = None"
    and "fst (LoadAllGroups G (loadedMgr G config)) = None"
    and "fst (StartSyncAllGroups G (snd (LoadAllGroups G (loadedMgr G config)))) = Some e"
  shows "status (mainRet G w config) = Fatal e"
proof -
  obtain m2 where l: "LoadAllGroups G (loadedMgr G config) = (None, m2)"
    using assms(4) by (cases "LoadAllGroups G (loadedMgr G config)") simp
  obtain m3 where "StartSyncAllGroups G m2 = (Some e, m3)"
    using assms(5) l by (cases "StartSyncAllGroups G m2") simp
  with l show ?thesis by (simp add: mainRet_quiet [OF assms(1,2,3)])
qed

lemma startBootstrap_fatal_cause:
  assumes "status (startBootstrap G w config) = Fatal e"
  shows "\<exists>c \<in> {NewConnManager, NewNode, CreateDb, StatsInitDB}. answer w c = Some e"
  using assms
  by (simp add: startBootstrap_def status_awaitSignal split: option.splits)

lemma startNode_fatal_cause:
  assumes "status (startNode G w config) = Fatal e"
  shows "(\<exists>c \<in> {CreateDb, NewConnManager, StatsInitDB, PubQueueDbInit, CreateAppDb}. answer w c = Some e) \<or>
         fst (LoadAllGroups G (loadedMgr G config)) = Some e \<or>
         fst (LoadAllGroups G (loadedMgr G config)) = None \<and>
         fst (StartSyncAllGroups G (snd (LoadAllGroups G (loadedMgr G config)))) = Some e"
  using assms
  by (simp add: startNode_def createPubQueueDb_def loadedMgr_def Let_def status_awaitSignal
      split: option.splits sum.splits prod.splits if_splits)

lemma mainRet_fatal_cause:
  assumes "status (mainRet G w config) = Fatal e"
  shows "(\<exists>c \<in> set (checkedCalls config). answer w c = Some e) \<or>
         \<not> IsBootstrap config \<and>
         (fst (LoadAllGroups G (loadedMgr G config)) = Some e \<or>
          fst (LoadAllGroups G (loadedMgr G config)) = None \<and>
          fst (StartSyncAllGroups G (snd (LoadAllGroups G (loadedMgr G config)))) = Some e)"
proof (cases "\<exists>c \<in> {InitNodeOptions, InitDefaultKeystore, SignKeytoPeerKeys, GetPeerInfo, NewDatastore}.
      answer w c = Some e")
  case True
  then show ?thesis by (auto simp add: set_checkedCalls)
next
  case False
  with assms have m: "status (if IsBootstrap config then startBootstrap G w config
                               else startNode G w config) = Fatal e"
    by (auto simp add: mainRet_def split: option.splits if_splits)
  show ?thesis
  proof (cases "IsBootstrap config")
    case True
    with m have "status (startBootstrap G w config) = Fatal e" by simp
    then have "\<exists>c \<in> {NewConnManager, NewNode, CreateDb, StatsInitDB}. answer w c = Some e"
      by (rule startBootstrap_fatal_cause)
    then show ?thesis using True by (auto simp add: set_checkedCalls)
  next
    case nb: False
    with m have "status (startNode G w config) = Fatal e" by simp
    from startNode_fatal_cause [OF this] show ?thesis
      using nb by (auto simp add: set_checkedCalls)
  qed
qed

section \<open>Properties of the modelled LoadAllGroups\<close>

lemma specLoadAllGroups_fault:
  "fst (specLoadAllGroups m) =
     (case metaStore m of Inl x \<Rightarrow> Some (StorageFault x) | Inr ms \<Rightarrow> None)"
  by (simp add: specLoadAllGroups_def split: sum.splits)

lemma foldl_loadGroup_dom:
  "dom (registry (foldl loadGroup m ms)) = dom (registry m) \<union> metaIds ms"
proof (induction ms arbitrary: m)
  case Nil
  then show ?case by simp
next
  case (Cons x ms)
  show ?case
  proof (cases x)
    case (CorruptMeta why)
    then show ?thesis using Cons.IH [of "loadGroup m x"] by simp
  next
    case (GroupMeta item)
    then show ?thesis using Cons.IH [of "loadGroup m x"] by auto
  qed
qed

lemma foldl_loadGroup_skipped:
  "skippedGroups (foldl loadGroup m ms) = skippedGroups m @ corruptNotes ms"
proof (induction ms arbitrary: m)
  case Nil
  then show ?case by simp
next
  case (Cons x ms)
  show ?case
  proof (cases x)
    case (CorruptMeta why)
    then show ?thesis using Cons.IH [of "loadGroup m x"] by simp
  next
    case (GroupMeta item)
    then show ?thesis using Cons.IH [of "loadGroup m x"] by simp
  qed
qed

lemma specLoadAllGroups_readable:
  assumes "metaStore m = Inr metas"
  shows "dom (registry (snd (specLoadAllGroups m))) = dom (registry m) \<union> metaIds metas \<and>
         skippedGroups (snd (specLoadAllGroups m)) = skippedGroups m @ corruptNotes metas"
  using assms by (simp add: specLoadAllGroups_def foldl_loadGroup_dom foldl_loadGroup_skipped)

lemma metaStore_loadedMgr [simp]:
  "metaStore (loadedMgr (specGroupMgr store) config) = store"
  by (simp add: loadedMgr_def specGroupMgr_def)

lemma specGroupMgr_load:
  "fst (LoadAllGroups (specGroupMgr store) m) = map_option faultError (fst (specLoadAllGroups m))"
  by (simp add: specGroupMgr_def split: prod.splits)

lemma specGroupMgr_start:
  "fst (StartSyncAllGroups (specGroupMgr store) m) = None"
  by (simp add: specGroupMgr_def)

lemma specGroupMgr_load_readable:
  "fst (LoadAllGroups (specGroupMgr (Inr metas)) (loadedMgr (specGroupMgr (Inr metas)) config)) = None"
  by (simp add: specGroupMgr_load specLoadAllGroups_fault)

lemma mainRet_group_not_fatal:
  assumes "status (mainRet (specGroupMgr (Inr metas)) w config) = Fatal e"
  shows "\<exists>c \<in> set (checkedCalls config). answer w c = Some e"
  using mainRet_fatal_cause [OF assms]
  by (simp add: specGroupMgr_load_readable specGroupMgr_start)

lemma mainRet_corrupt_not_fatal:
  assumes quiet: "\<forall>c \<in> set (checkedCalls config). answer w c = None"
    and nb: "\<not> IsBootstrap config"
    and node: "answer w NewNode = None"
    and api: "APIListenAddresses config \<noteq> []"
    and sig: "signal w \<noteq> None"
  shows "status (mainRet (specGroupMgr (Inr metas)) w config) = Return 0"
proof -
  let ?G = "specGroupMgr (Inr metas)"
  have "fst (LoadAllGroups ?G (loadedMgr ?G config)) = None"
    by (rule specGroupMgr_load_readable)
  then obtain m2 where l: "LoadAllGroups ?G (loadedMgr ?G config) = (None, m2)"
    by (cases "LoadAllGroups ?G (loadedMgr ?G config)") simp
  obtain m3 where s: "StartSyncAllGroups ?G m2 = (None, m3)"
    using specGroupMgr_start [of "Inr metas" m2] by (cases "StartSyncAllGroups ?G m2") simp
  show ?thesis
    using l s api sig
    by (auto simp add: mainRet_quiet [OF quiet nb node] status_awaitSignal)
qed

text \<open>
  Claim C5, as amended. (1) The failure of any startup step whose error \<open>mainRet\<close> checks
  ends the process by \<open>Fatalf\<close>, whichever component the step belongs to: not only a
  Storage Port initialisation failure. (2) With those steps succeeding on a normal node,
  an error returned by LoadAllGroups or by StartSyncAllGroups ends the process by
  \<open>Fatalf\<close> as well. (3) Every \<open>Fatalf\<close> at startup carries the error of one of these:
  of a checked startup step, of LoadAllGroups, or of StartSyncAllGroups after
  LoadAllGroups has succeeded. (4) LoadAllGroups, as the specification describes it, fails
  exactly when the metadata cannot be read, with a StorageFault; (5) when the metadata is
  read it registers the groups whose records are well formed and logs the corrupt records
  it skips. (6) So no group's fault is fatal: over that manager and readable metadata,
  whatever the groups' records are, a \<open>Fatalf\<close> of \<open>mainRet\<close> carries the error of a
  checked startup step, and (7) on a normal node whose startup steps succeed \<open>mainRet\<close>
  returns 0 once a signal arrives. How a run ends in which \<open>p2p.NewNode\<close> fails on a
  normal node, or in which the API listen address is empty, is left open: parts 1, 2 and
  7 do not cover such a run.
\<close>

theorem startup_failures_fatal:
  "(c \<in> set (checkedCalls config) \<and> answer w c \<noteq> None \<and>
    (IsBootstrap config \<or> answer w NewNode = None) \<longrightarrow>
      (\<exists>x. status (mainRet G w config) = Fatal x)) \<and>
   ((\<forall>c' \<in> set (checkedCalls config). answer w c' = None) \<and> \<not> IsBootstrap config \<and>
    answer w NewNode = None \<and>
    (fst (LoadAllGroups G (loadedMgr G config)) = Some e \<or>
     fst (LoadAllGroups G (loadedMgr G config)) = None \<and>
     fst (StartSyncAllGroups G (snd (LoadAllGroups G (loadedMgr G config)))) = Some e) \<longrightarrow>
      status (mainRet G w config) = Fatal e) \<and>
   (status (mainRet G w config) = Fatal e \<longrightarrow>
      (\<exists>c' \<in> set (checkedCalls config). answer w c' = Some e) \<or>
      \<not> IsBootstrap config \<and>
      (fst (LoadAllGroups G (loadedMgr G config)) = Some e \<or>
       fst (LoadAllGroups G (loadedMgr G config)) = None \<and>
       fst (StartSyncAllGroups G (snd (LoadAllGroups G (loadedMgr G config)))) = Some e)) \<and>
   fst (specLoadAllGroups m) =
     (case metaStore m of Inl x \<Rightarrow> Some (StorageFault x) | Inr ms \<Rightarrow> None) \<and>
   (metaStore m = Inr metas \<longrightarrow>
      dom (registry (snd (specLoadAllGroups m))) = dom (registry m) \<union> metaIds metas \<and>
      skippedGroups (snd (specLoadAllGroups m)) = skippedGroups m @ corruptNotes metas) \<and>
   (status (mainRet (specGroupMgr (Inr metas)) w config) = Fatal e \<longrightarrow>
      (\<exists>c' \<in> set (checkedCalls config). answer w c' = Some e)) \<and>
   ((\<forall>c' \<in> set (checkedCalls config). answer w c' = None) \<and> \<not> IsBootstrap config \<and>
    answer w NewNode = None \<and> APIListenAddresses config \<noteq> [] \<and> signal w \<noteq> None \<longrightarrow>
      status (mainRet (specGroupMgr (Inr metas)) w config) = Return 0)"
proof (intro conjI impI)
  assume "c \<in> set (checkedCalls config) \<and> answer w c \<noteq> None \<and>
    (IsBootstrap config \<or> answer w NewNode = None)"
  then show "\<exists>x. status (mainRet G w config) = Fatal x"
    using mainRet_failure [of c config w G] by blast
next
  assume a: "(\<forall>c' \<in> set (checkedCalls config). answer w c' = None) \<and> \<not> IsBootstrap config \<and>
    answer w NewNode = None \<and>
    (fst (LoadAllGroups G (loadedMgr G config)) = Some e \<or>
     fst (LoadAllGroups G (loadedMgr G config)) = None \<and>
     fst (StartSyncAllGroups G (snd (LoadAllGroups G (loadedMgr G config)))) = Some e)"
  then show "status (mainRet G w config) = Fatal e"
    using mainRet_load_fatal [of config w G e] mainRet_start_fatal [of config w G e] by blast
next
  assume "status (mainRet G w config) = Fatal e"
  then show "(\<exists>c' \<in> set (checkedCalls config). answer w c' = Some e) \<or>
      \<not> IsBootstrap config \<and>
      (fst (LoadAllGroups G (loadedMgr G config)) = Some e \<or>
       fst (LoadAllGroups G (loadedMgr G config)) = None \<and>
       fst (StartSyncAllGroups G (snd (LoadAllGroups G (loadedMgr G config)))) = Some e)"
    by (rule mainRet_fatal_cause)
next
  show "fst (specLoadAllGroups m) =
     (case metaStore m of Inl x \<Rightarrow> Some (StorageFault x) | Inr ms \<Rightarrow> None)"
    by (rule specLoadAllGroups_fault)
next
  assume "metaStore m = Inr metas"
  then show "dom (registry (snd (specLoadAllGroups m))) = dom (registry m) \<union> metaIds metas"
    by (simp add: specLoadAllGroups_readable)
next
  assume "metaStore m = Inr metas"
  then show "skippedGroups (snd (specLoadAllGroups m)) = skippedGroups m @ corruptNotes metas"
    by (simp add: specLoadAllGroups_readable)
next
  assume "status (mainRet (specGroupMgr (Inr metas)) w config) = Fatal e"
  then show "\<exists>c' \<in> set (checkedCalls config). answer w c' = Some e"
    by (rule mainRet_group_not_fatal)
next
  assume "(\<forall>c' \<in> set (checkedCalls config). answer w c' = None) \<and> \<not> IsBootstrap config \<and>
    answer w NewNode = None \<and> APIListenAddresses config \<noteq> [] \<and> signal w \<noteq> None"
  then show "status (mainRet (specGroupMgr (Inr metas)) w config) = Return 0"
    using mainRet_corrupt_not_fatal [of config w metas] by blast
qed

text \<open>
  Claim C5 as stated fails: on a normal node the connection manager cannot be created,
  every database opens, and the process ends by \<open>Fatalf\<close>.
\<close>

theorem only_storage_fatal_counterexample:
  "status (mainRet unitMgr connWorld demoConfig) = Fatal ''invalid connection limits'' \<and>
   answer connWorld CreateDb = None \<and>
   answer connWorld NewDatastore = None \<and>
   answer connWorld StatsInitDB = None \<and>
   answer connWorld PubQueueDbInit = None \<and>
   answer connWorld CreateAppDb = None"
  by (simp add: mainRet_def startNode_def connWorld_def demoConfig_def)

lemma quietWorld_quiet: "\<forall>c \<in> set (checkedCalls demoConfig). answer quietWorld c = None"
  by (simp add: quietWorld_def)

lemma connWorld_spec_fatal:
  "status (mainRet (specGroupMgr (Inr demoMetas)) connWorld demoConfig) =
     Fatal ''invalid connection limits''"
  by (simp add: mainRet_def startNode_def connWorld_def demoConfig_def)

theorem startup_failures_fatal_witness:
  "NewConnManager \<in> set (checkedCalls demoConfig) \<and>
   answer connWorld NewConnManager \<noteq> None \<and>
   answer connWorld NewNode = None \<and>
   (\<exists>x. status (mainRet unitMgr connWorld demoConfig) = Fatal x) \<and>
   \<not> IsBootstrap demoConfig \<and>
   APIListenAddresses demoConfig \<noteq> [] \<and>
   answer quietWorld NewNode = None \<and>
   signal quietWorld \<noteq> None \<and>
   metaStore (InitGroupMgr (specGroupMgr (Inr demoMetas))) = Inr demoMetas \<and>
   dom (registry (snd (specLoadAllGroups (InitGroupMgr (specGroupMgr (Inr demoMetas)))))) =
     {''g1'', ''g3''} \<and>
   skippedGroups (snd (specLoadAllGroups (InitGroupMgr (specGroupMgr (Inr demoMetas))))) =
     [''group record 2: unmarshal failed''] \<and>
   status (mainRet (specGroupMgr (Inr demoMetas)) quietWorld demoConfig) = Return 0 \<and>
   status (mainRet (specGroupMgr (Inl ''cannot open'')) quietWorld demoConfig) =
     Fatal ''StorageFault: cannot open'' \<and>
   status (mainRet (specGroupMgr (Inr demoMetas)) connWorld demoConfig) =
     Fatal ''invalid connection limits'' \<and>
   (\<exists>c' \<in> set (checkedCalls demoConfig). answer connWorld c' = Some ''invalid connection limits'')"
proof -
  have c: "NewConnManager \<in> set (checkedCalls demoConfig)"
    by (simp add: checkedCalls_def demoConfig_def)
  have a: "answer connWorld NewConnManager \<noteq> None"
    and cn: "answer connWorld NewNode = None"
    by (simp_all add: connWorld_def)
  have nb: "\<not> IsBootstrap demoConfig" and api: "APIListenAddresses demoConfig \<noteq> []"
    by (simp_all add: demoConfig_def)
  have sig: "signal quietWorld \<noteq> None" and qn: "answer quietWorld NewNode = None"
    by (simp_all add: quietWorld_def)
  have ms: "metaStore (InitGroupMgr (specGroupMgr (Inr demoMetas))) = Inr demoMetas"
    by (simp add: specGroupMgr_def)
  have empty: "dom (registry (InitGroupMgr (specGroupMgr (Inr demoMetas)))) = {}"
    and nolog: "skippedGroups (InitGroupMgr (specGroupMgr (Inr demoMetas))) = []"
    by (simp_all add: specGroupMgr_def)
  have ids: "metaIds demoMetas = {''g1'', ''g3''}"
    and skipped: "corruptNotes demoMetas = [''group record 2: unmarshal failed'']"
    by (simp_all add: demoMetas_def)
  have lf: "fst (LoadAllGroups (specGroupMgr (Inl ''cannot open''))
                  (loadedMgr (specGroupMgr (Inl ''cannot open'')) demoConfig)) =
            Some ''StorageFault: cannot open''"
    by (simp add: specGroupMgr_load specLoadAllGroups_fault faultError_def)
  note t1 = startup_failures_fatal [of NewConnManager demoConfig connWorld unitMgr]
  note t2 = startup_failures_fatal [of _ demoConfig quietWorld _ _
      "InitGroupMgr (specGroupMgr (Inr demoMetas))" demoMetas]
  note t3 = startup_failures_fatal [of _ demoConfig quietWorld "specGroupMgr (Inl ''cannot open'')"
      "''StorageFault: cannot open''"]
  note t4 = startup_failures_fatal [of _ demoConfig connWorld _ "''invalid connection limits''"
      _ demoMetas]
  from t1 c a cn have r1: "\<exists>x. status (mainRet unitMgr connWorld demoConfig) = Fatal x"
    by blast
  from t2 ms have r2:
    "dom (registry (snd (specLoadAllGroups (InitGroupMgr (specGroupMgr (Inr demoMetas)))))) =
       dom (registry (InitGroupMgr (specGroupMgr (Inr demoMetas)))) \<union> metaIds demoMetas"
    and r3: "skippedGroups (snd (specLoadAllGroups (InitGroupMgr (specGroupMgr (Inr demoMetas))))) =
       skippedGroups (InitGroupMgr (specGroupMgr (Inr demoMetas))) @ corruptNotes demoMetas"
    by blast+
  from t2 quietWorld_quiet nb qn api sig
  have r4: "status (mainRet (specGroupMgr (Inr demoMetas)) quietWorld demoConfig) = Return 0"
    by blast
  from t3 quietWorld_quiet nb qn lf
  have r5: "status (mainRet (specGroupMgr (Inl ''cannot open'')) quietWorld demoConfig) =
     Fatal ''StorageFault: cannot open''"
    by blast
  from t4 connWorld_spec_fatal
  have r6: "\<exists>c' \<in> set (checkedCalls demoConfig). answer connWorld c' = Some ''invalid connection limits''"
    by blast
  from r2 have r2': "dom (registry (snd (specLoadAllGroups (InitGroupMgr (specGroupMgr (Inr demoMetas)))))) =
     {''g1'', ''g3''}"
    by (simp add: empty ids)
  from r3 have r3': "skippedGroups (snd (specLoadAllGroups (InitGroupMgr (specGroupMgr (Inr demoMetas))))) =
     [''group record 2: unmarshal failed'']"
    by (simp add: nolog skipped)
  from c a cn r1 nb api qn sig ms r2' r3' r4 r5 connWorld_spec_fatal r6 show ?thesis
    by (intro conjI)
qed

end
